theory Spec2Isabelle
  imports Complex_Main "HOL-Library.Sublist"
begin

section \<open>The academic email drafter: prompt template, generation call, trigger handler\<close>

text \<open>
  The program is \<^verbatim>\<open>app.py\<close>: a Streamlit script that is re-run on every interaction.
  Python strings are modelled as \<^typ>\<open>string\<close>; a non-ASCII character of a literal is
  written as its UTF-8 bytes. A Python string is truthy exactly when it is not empty.
\<close>

subsection \<open>Strings of the script\<close>

abbreviation newline :: char where
  "newline \<equiv> CHR 0x0A"

text \<open>The warning sign that starts the messages shown with \<^verbatim>\<open>st.error\<close> (U+26A0 U+FE0F).\<close>

definition warning_sign :: string where
  "warning_sign = [CHR 0xE2, CHR 0x9A, CHR 0xA0, CHR 0xEF, CHR 0xB8, CHR 0x8F]"

subsection \<open>The instruction template (app.py, lines 29 to 40)\<close>

text \<open>
  The f-string \<^verbatim>\<open>ai_prompt\<close>, one source line per line below. Every line of the literal
  carries the eight spaces of its indentation, and the two conditional replacement fields
  stand alone on their lines.
\<close>

definition ai_prompt :: "string \<Rightarrow> string \<Rightarrow> string \<Rightarrow> string \<Rightarrow> string \<Rightarrow> string" where
  "ai_prompt prompt intent recipient_name paper_details other_info =
     [newline]
     @ ''        Draft a professional academic email with the following details:'' @ [newline]
     @ [newline]
     @ ''        Recipient Name: ''
         @ (if recipient_name \<noteq> [] then recipient_name else ''Colleague'') @ [newline]
     @ ''        Email Intent: '' @ intent @ [newline]
     @ ''        Core Message/Key Points: '' @ prompt @ [newline]
     @ ''        ''
         @ (if paper_details \<noteq> [] then ''Relevant Paper/Manuscript Details: '' @ paper_details
            else []) @ [newline]
     @ ''        ''
         @ (if other_info \<noteq> [] then ''Other Specific Information: '' @ other_info
            else []) @ [newline]
     @ [newline]
     @ ''        Please structure the email appropriately with a subject line, salutation, body, and closing.'' @ [newline]
     @ ''        Ensure the tone is professional and academic.'' @ [newline]
     @ ''        ''"

subsection \<open>The generation service as seen by the script\<close>

text \<open>
  The keyword arguments of \<^verbatim>\<open>client.chat.completions.create\<close>. A message is a Python
  dict, kept as an association list in the order it is written.
\<close>

record create_args =
  model :: string
  messages :: "(string \<times> string) list list"
  max_tokens :: int
  temperature :: rat

text \<open>The part of the returned object that the script reads: \<^verbatim>\<open>choices[0].message.content\<close>.\<close>

record completion_message =
  content :: string

record choice =
  message :: completion_message

record chat_completion =
  choices :: "choice list"

text \<open>
  The call either raises or returns. An exception is kept as the text \<^verbatim>\<open>str(e)\<close> that
  the handler formats; the exceptions are those of class \<^verbatim>\<open>Exception\<close>, which is what
  the client library raises for transport, authentication, status and decoding errors.
  The content of a returned choice is taken to be a string.
\<close>

datatype api_outcome = Raises string | Returns chat_completion

type_synonym 'c transport = "'c \<Rightarrow> create_args \<Rightarrow> api_outcome"

subsection \<open>Start of the script (app.py, lines 7 to 15)\<close>

text \<open>
  \<^verbatim>\<open>configure\<close> returns the global \<^verbatim>\<open>client\<close> (\<open>None\<close> when the name was never bound)
  and the messages shown with \<^verbatim>\<open>st.error\<close>. The constructor \<^verbatim>\<open>openai.OpenAI\<close> is a
  parameter; \<open>Inl\<close> is an exception it raises.
\<close>

definition configure ::
  "(string \<rightharpoonup> string) \<Rightarrow> (string \<Rightarrow> string + 'c) \<Rightarrow> 'c option \<times> string list" where
  "configure environ OpenAI =
     (case environ ''OPENAI_API_KEY'' of
        None \<Rightarrow>
          (None, [warning_sign @ '' OpenAI API Key not found in environment variables. Please set it.''])
      | Some OPENAI_API_KEY \<Rightarrow>
          if OPENAI_API_KEY = [] then
            (None, [warning_sign @ '' OpenAI API Key not found in environment variables. Please set it.''])
          else
            (case OpenAI OPENAI_API_KEY of
               Inr client \<Rightarrow> (Some client, [])
             | Inl e \<Rightarrow> (None, [warning_sign @ '' Error configuring OpenAI API: '' @ e])))"

subsection \<open>generate_email_draft (app.py, lines 19 to 55)\<close>

definition chat_request :: "string \<Rightarrow> create_args" where
  "chat_request user_content =
     \<lparr> model = ''gpt-3.5-turbo'',
       messages =
         [ [(''role'', ''system''),
            (''content'', ''You are a helpful academic email drafting assistant.'')],
           [(''role'', ''user''), (''content'', user_content)] ],
       max_tokens = 500,
       temperature = 7 / 10 \<rparr>"

text \<open>
  The body of the \<^verbatim>\<open>try\<close> block: the call, then \<^verbatim>\<open>response.choices[0].message.content\<close>.
  \<open>Inl\<close> is a raised exception; indexing an empty list raises \<^verbatim>\<open>IndexError\<close>.
\<close>

definition try_body :: "'c transport \<Rightarrow> 'c \<Rightarrow> string \<Rightarrow> string + string" where
  "try_body create client user_content =
     (case create client (chat_request user_content) of
        Raises e \<Rightarrow> Inl e
      | Returns response \<Rightarrow>
          (case choices response of
             [] \<Rightarrow> Inl ''list index out of range''
           | c # _ \<Rightarrow> Inr (content (message c))))"

text \<open>
  The function returns its string together with the requests it sent, in order. Inside the
  function \<^verbatim>\<open>locals()\<close> holds the five parameters only, so the first test asks whether
  the global \<^verbatim>\<open>client\<close> is bound.
\<close>

definition generate_email_draft ::
  "'c transport \<Rightarrow> 'c option \<Rightarrow> string \<Rightarrow> string \<Rightarrow> string \<Rightarrow> string \<Rightarrow> string
     \<Rightarrow> string \<times> create_args list" where
  "generate_email_draft create client prompt intent recipient_name paper_details other_info =
     (case client of
        None \<Rightarrow>
          (''Error: OpenAI API not configured. Please set your API key as an environment variable.'', [])
      | Some cl \<Rightarrow>
          (let user_content = ai_prompt prompt intent recipient_name paper_details other_info in
           (case try_body create cl user_content of
              Inr text \<Rightarrow> (text, [chat_request user_content])
            | Inl e \<Rightarrow>
                (''Error generating email draft with OpenAI API: '' @ e,
                 [chat_request user_content]))))"

subsection \<open>The main area of the page (app.py, lines 70 to 185)\<close>

record session_state =
  draft :: string
  error_message :: string

definition initial_state :: session_state where
  "initial_state = \<lparr> draft = [], error_message = [] \<rparr>"

text \<open>The values of the sidebar widgets in one run of the script.\<close>

record inputs =
  user_prompt :: string
  selected_intent :: string
  recipient_name :: string
  paper_info :: string
  other_info :: string
  generate_button :: bool

definition email_intent_options :: "string list" where
  "email_intent_options =
     [''Inquiry'', ''Submission'', ''Thank You'', ''Collaboration Request'', ''Follow-up'', ''General'']"

text \<open>The branch under \<^verbatim>\<open>if generate_button:\<close> (lines 139 to 156).\<close>

definition on_generate ::
  "'c transport \<Rightarrow> 'c option \<Rightarrow> inputs \<Rightarrow> session_state \<Rightarrow> session_state \<times> create_args list" where
  "on_generate create client inp st =
     (if user_prompt inp = [] then
        (st\<lparr> error_message :=
               warning_sign @ '' Please enter a core prompt for your email in the sidebar.'',
             draft := [] \<rparr>, [])
      else
        (let st1 = st\<lparr> error_message := [] \<rparr> in
         (case client of
            Some _ \<Rightarrow>
              (let (d, sent) =
                     generate_email_draft create client (user_prompt inp) (selected_intent inp)
                       (recipient_name inp) (paper_info inp) (other_info inp)
               in (st1\<lparr> draft := d \<rparr>, sent))
          | None \<Rightarrow>
              (st1\<lparr> error_message :=
                      warning_sign @ '' OpenAI API not configured. Please set your API key as an environment variable.'' \<rparr>,
               []))))"

text \<open>What the main area shows, as far as it depends on the session state.\<close>

datatype widget = Error_box string | Draft_area string | Sending_note | Fill_in_hint

text \<open>
  One run of the script below the sidebar: the error box is drawn from the state as the run
  finds it (line 135), then the button is handled, then the draft area is drawn from the
  state as the handler leaves it (lines 162 to 185).
\<close>

definition script_run ::
  "'c transport \<Rightarrow> 'c option \<Rightarrow> inputs \<Rightarrow> session_state
     \<Rightarrow> session_state \<times> widget list \<times> create_args list" where
  "script_run create client inp st =
     (let shown_error = (if error_message st \<noteq> [] then [Error_box (error_message st)] else []);
          (st', sent) = (if generate_button inp then on_generate create client inp st
                         else (st, []));
          shown_draft =
            (if draft st' \<noteq> [] then [Draft_area (draft st'), Sending_note]
             else if error_message st' = [] then [Fill_in_hint] else [])
      in (st', shown_error @ shown_draft, sent))"

text \<open>
  A browser session: the runs of the script one after the other, from the state that lines
  70 to 74 set up. The configuration of the process does not change between the runs.
\<close>

fun session :: "'c transport \<Rightarrow> 'c option \<Rightarrow> session_state \<Rightarrow> inputs list \<Rightarrow> session_state" where
  "session create client st [] = st"
| "session create client st (inp # inps) =
     session create client (fst (script_run create client inp st)) inps"

subsection \<open>Vocabulary of the properties\<close>

text \<open>
  The lines of a text, as \<^verbatim>\<open>str.split('\n')\<close> gives them. The result is never the
  empty list, so the last case below is never taken.
\<close>

fun lines_of :: "string \<Rightarrow> string list" where
  "lines_of [] = [[]]"
| "lines_of (c # cs) =
     (if c = newline then [] # lines_of cs
      else (case lines_of cs of l # ls \<Rightarrow> (c # l) # ls | [] \<Rightarrow> [[c]]))"

text \<open>The text with its lines put together again, as \<^verbatim>\<open>'\n'.join\<close> does.\<close>

fun join_lines :: "string list \<Rightarrow> string" where
  "join_lines [] = []"
| "join_lines [l] = l"
| "join_lines (l # ls) = l @ newline # join_lines ls"

section \<open>Lines of the template\<close>

lemma lines_of_not_Nil [simp]: "lines_of s \<noteq> []"
  by (induction s) (auto split: list.splits)

lemma lines_of_single: "newline \<notin> set s \<Longrightarrow> lines_of s = [s]"
  by (induction s) auto

lemma lines_of_append_newline: "lines_of (a @ newline # b) = lines_of a @ lines_of b"
  by (induction a) (auto split: list.splits)

lemma lines_of_join_lines: "ls \<noteq> [] \<Longrightarrow> lines_of (join_lines ls) = concat (map lines_of ls)"
proof (induction ls rule: join_lines.induct)
  case (3 l k ks)
  then show ?case by (simp add: lines_of_append_newline)
qed simp_all

lemma ai_prompt_join_lines:
  "ai_prompt prompt intent recipient paper other =
     join_lines
       [ [],
         ''        Draft a professional academic email with the following details:'',
         [],
         ''        Recipient Name: '' @ (if recipient \<noteq> [] then recipient else ''Colleague''),
         ''        Email Intent: '' @ intent,
         ''        Core Message/Key Points: '' @ prompt,
         ''        '' @ (if paper \<noteq> [] then ''Relevant Paper/Manuscript Details: '' @ paper else []),
         ''        '' @ (if other \<noteq> [] then ''Other Specific Information: '' @ other else []),
         [],
         ''        Please structure the email appropriately with a subject line, salutation, body, and closing.'',
         ''        Ensure the tone is professional and academic.'',
         ''        '' ]"
  by (simp add: ai_prompt_def)

lemma lines_of_ai_prompt:
  "lines_of (ai_prompt p i r pd oi) =
     [ [], ''        Draft a professional academic email with the following details:'', [] ]
     @ lines_of (''        Recipient Name: '' @ (if r \<noteq> [] then r else ''Colleague''))
     @ lines_of (''        Email Intent: '' @ i)
     @ lines_of (''        Core Message/Key Points: '' @ p)
     @ lines_of (''        '' @ (if pd \<noteq> [] then ''Relevant Paper/Manuscript Details: '' @ pd else []))
     @ lines_of (''        '' @ (if oi \<noteq> [] then ''Other Specific Information: '' @ oi else []))
     @ [ [],
         ''        Please structure the email appropriately with a subject line, salutation, body, and closing.'',
         ''        Ensure the tone is professional and academic.'',
         ''        '' ]"
proof -
  have fixed:
    "lines_of ''        Draft a professional academic email with the following details:'' =
       [''        Draft a professional academic email with the following details:'']"
    "lines_of ''        Please structure the email appropriately with a subject line, salutation, body, and closing.'' =
       [''        Please structure the email appropriately with a subject line, salutation, body, and closing.'']"
    "lines_of ''        Ensure the tone is professional and academic.'' =
       [''        Ensure the tone is professional and academic.'']"
    "lines_of ''        '' = [''        '']"
    by (rule lines_of_single, simp)+
  show ?thesis
    unfolding ai_prompt_join_lines
    by (subst lines_of_join_lines)
      (simp_all only: fixed list.map concat.simps lines_of.simps(1) append.simps
         list.distinct not_False_eq_True)
qed

section \<open>Containment\<close>

lemma sublist_skip: "sublist xs ys \<Longrightarrow> sublist xs (zs @ ys)"
proof -
  assume "sublist xs ys"
  then obtain ps ss where "ys = ps @ xs @ ss" by (auto simp: sublist_def)
  then have "zs @ ys = (zs @ ps) @ xs @ ss" by simp
  then show ?thesis unfolding sublist_def by blast
qed

section \<open>Positions in the list of lines\<close>

lemma fourth_of_lines: "xs = [a, b, c] @ [x] @ rest \<Longrightarrow> xs ! 3 = x"
  by (simp add: numeral_3_eq_3)

lemma slots_from_end:
  assumes "L = H @ [a, b] @ C" and "length C = 4"
  shows "L ! (length L - 6) = a" and "L ! (length L - 5) = b" and "length L = length H + 6"
  using assms by (simp_all add: nth_append)

lemma recipient_line:
  assumes "newline \<notin> set r"
  shows "lines_of (ai_prompt p i r pd oi) ! 3 =
     ''        Recipient Name: '' @ (if r \<noteq> [] then r else ''Colleague'')"
proof -
  define R where "R = ''        Recipient Name: '' @ (if r \<noteq> [] then r else ''Colleague'')"
  define rest where "rest = lines_of (''        Email Intent: '' @ i)
     @ lines_of (''        Core Message/Key Points: '' @ p)
     @ lines_of (''        '' @ (if pd \<noteq> [] then ''Relevant Paper/Manuscript Details: '' @ pd else []))
     @ lines_of (''        '' @ (if oi \<noteq> [] then ''Other Specific Information: '' @ oi else []))
     @ [ [],
         ''        Please structure the email appropriately with a subject line, salutation, body, and closing.'',
         ''        Ensure the tone is professional and academic.'',
         ''        '' ]"
  have one: "lines_of R = [R]" using assms unfolding R_def by (intro lines_of_single) auto
  have "lines_of (ai_prompt p i r pd oi) =
      [ [], ''        Draft a professional academic email with the following details:'', [] ]
        @ lines_of R @ rest"
    unfolding R_def rest_def by (rule lines_of_ai_prompt)
  then have "lines_of (ai_prompt p i r pd oi) ! 3 = R"
    unfolding one by (rule fourth_of_lines)
  then show ?thesis unfolding R_def .
qed

text \<open>
  The two optional fields, when neither holds a line break: each fills the line at its fixed
  place, counted from the end of the instruction, and the number of lines is the one of the
  instruction with both fields empty.
\<close>

lemma optional_slots:
  assumes "newline \<notin> set pd" and "newline \<notin> set oi"
  shows "length (lines_of (ai_prompt p i r pd oi)) = length (lines_of (ai_prompt p i r [] []))"
    and "lines_of (ai_prompt p i r pd oi) ! (length (lines_of (ai_prompt p i r pd oi)) - 6) =
           ''        '' @ (if pd = [] then [] else ''Relevant Paper/Manuscript Details: '' @ pd)"
    and "lines_of (ai_prompt p i r pd oi) ! (length (lines_of (ai_prompt p i r pd oi)) - 5) =
           ''        '' @ (if oi = [] then [] else ''Other Specific Information: '' @ oi)"
proof -
  define S1 where
    "S1 = ''        '' @ (if pd \<noteq> [] then ''Relevant Paper/Manuscript Details: '' @ pd else [])"
  define S2 where
    "S2 = ''        '' @ (if oi \<noteq> [] then ''Other Specific Information: '' @ oi else [])"
  define H where
    "H = [ [], ''        Draft a professional academic email with the following details:'', [] ]
       @ lines_of (''        Recipient Name: '' @ (if r \<noteq> [] then r else ''Colleague''))
       @ lines_of (''        Email Intent: '' @ i)
       @ lines_of (''        Core Message/Key Points: '' @ p)"
  define C where
    "C = [ [],
           ''        Please structure the email appropriately with a subject line, salutation, body, and closing.'',
           ''        Ensure the tone is professional and academic.'',
           ''        '' ]"
  have one1: "lines_of S1 = [S1]"
    using assms(1) unfolding S1_def by (intro lines_of_single) auto
  have one2: "lines_of S2 = [S2]"
    using assms(2) unfolding S2_def by (intro lines_of_single) auto
  have blank: "lines_of ''        '' = [''        '']"
    by (intro lines_of_single) simp
  have C: "length C = 4" by (simp add: C_def)
  have "lines_of (ai_prompt p i r pd oi) = H @ lines_of S1 @ lines_of S2 @ C"
    unfolding H_def S1_def S2_def C_def lines_of_ai_prompt by simp
  then have L: "lines_of (ai_prompt p i r pd oi) = H @ [S1, S2] @ C"
    by (simp add: one1 one2)
  have "lines_of (ai_prompt p i r [] []) = H @ lines_of ''        '' @ lines_of ''        '' @ C"
    unfolding H_def C_def lines_of_ai_prompt by simp
  then have L0: "lines_of (ai_prompt p i r [] []) = H @ [''        '', ''        ''] @ C"
    by (simp add: blank)
  have S: "S1 = ''        '' @ (if pd = [] then [] else ''Relevant Paper/Manuscript Details: '' @ pd)"
    "S2 = ''        '' @ (if oi = [] then [] else ''Other Specific Information: '' @ oi)"
    by (simp_all add: S1_def S2_def)
  show "length (lines_of (ai_prompt p i r pd oi)) = length (lines_of (ai_prompt p i r [] []))"
    using slots_from_end(3)[OF L C] slots_from_end(3)[OF L0 C] by simp
  show "lines_of (ai_prompt p i r pd oi) ! (length (lines_of (ai_prompt p i r pd oi)) - 6) =
           ''        '' @ (if pd = [] then [] else ''Relevant Paper/Manuscript Details: '' @ pd)"
    using slots_from_end(1)[OF L C] S(1) by (simp only:)
  show "lines_of (ai_prompt p i r pd oi) ! (length (lines_of (ai_prompt p i r pd oi)) - 5) =
           ''        '' @ (if oi = [] then [] else ''Other Specific Information: '' @ oi)"
    using slots_from_end(2)[OF L C] S(2) by (simp only:)
qed

lemma place_lines:
  "lines_of (''        '' @ (if v \<noteq> [] then label @ v else [])) =
     (if v = [] then [''        ''] else lines_of (''        '' @ label @ v))"
proof (cases "v = []")
  case True
  have "lines_of ''        '' = [''        '']" by (rule lines_of_single) simp
  with True show ?thesis by simp
next
  case False
  then show ?thesis by (simp only: if_True if_False not_False_eq_True)
qed

text \<open>
  The lines of the instruction for all values of the five fields: the place of each optional
  field comes after the lines of the core message and before the four closing lines.
\<close>

lemma lines_of_ai_prompt_places:
  "lines_of (ai_prompt p i r pd oi) =
     [ [], ''        Draft a professional academic email with the following details:'', [] ]
     @ lines_of (''        Recipient Name: '' @ (if r = [] then ''Colleague'' else r))
     @ lines_of (''        Email Intent: '' @ i)
     @ lines_of (''        Core Message/Key Points: '' @ p)
     @ (if pd = [] then [''        '']
        else lines_of (''        Relevant Paper/Manuscript Details: '' @ pd))
     @ (if oi = [] then [''        '']
        else lines_of (''        Other Specific Information: '' @ oi))
     @ [ [],
         ''        Please structure the email appropriately with a subject line, salutation, body, and closing.'',
         ''        Ensure the tone is professional and academic.'',
         ''        '' ]"
proof -
  have r: "(if r \<noteq> [] then r else ''Colleague'') = (if r = [] then ''Colleague'' else r)"
    by simp
  have a: "''        '' @ ''Relevant Paper/Manuscript Details: '' @ pd =
           ''        Relevant Paper/Manuscript Details: '' @ pd"
    and b: "''        '' @ ''Other Specific Information: '' @ oi =
           ''        Other Specific Information: '' @ oi"
    by simp_all
  show ?thesis
    unfolding lines_of_ai_prompt place_lines r a b ..
qed

section \<open>Where the fields stand in the instruction\<close>

lemma contains_recipient_line:
  "sublist ([newline] @ ''        Recipient Name: '' @ (if r \<noteq> [] then r else ''Colleague'') @ [newline])
     (ai_prompt p i r pd oi)"
  unfolding ai_prompt_def sublist_def
  by (intro exI[of _ "[newline]
       @ ''        Draft a professional academic email with the following details:'' @ [newline]"]
      exI[of _ "''        Email Intent: '' @ i @ [newline]
       @ ''        Core Message/Key Points: '' @ p @ [newline]
       @ ''        ''
         @ (if pd \<noteq> [] then ''Relevant Paper/Manuscript Details: '' @ pd else []) @ [newline]
       @ ''        ''
         @ (if oi \<noteq> [] then ''Other Specific Information: '' @ oi else []) @ [newline]
       @ [newline]
       @ ''        Please structure the email appropriately with a subject line, salutation, body, and closing.'' @ [newline]
       @ ''        Ensure the tone is professional and academic.'' @ [newline]
       @ ''        ''"]) simp

lemma contains_intent_line:
  "sublist ([newline] @ ''        Email Intent: '' @ i @ [newline]) (ai_prompt p i r pd oi)"
  unfolding ai_prompt_def sublist_def
  by (intro exI[of _ "[newline]
       @ ''        Draft a professional academic email with the following details:'' @ [newline]
       @ [newline]
       @ ''        Recipient Name: '' @ (if r \<noteq> [] then r else ''Colleague'')"]
      exI[of _ "''        Core Message/Key Points: '' @ p @ [newline]
       @ ''        ''
         @ (if pd \<noteq> [] then ''Relevant Paper/Manuscript Details: '' @ pd else []) @ [newline]
       @ ''        ''
         @ (if oi \<noteq> [] then ''Other Specific Information: '' @ oi else []) @ [newline]
       @ [newline]
       @ ''        Please structure the email appropriately with a subject line, salutation, body, and closing.'' @ [newline]
       @ ''        Ensure the tone is professional and academic.'' @ [newline]
       @ ''        ''"]) simp

lemma contains_message_line:
  "sublist ([newline] @ ''        Core Message/Key Points: '' @ p @ [newline]) (ai_prompt p i r pd oi)"
  unfolding ai_prompt_def sublist_def
  by (intro exI[of _ "[newline]
       @ ''        Draft a professional academic email with the following details:'' @ [newline]
       @ [newline]
       @ ''        Recipient Name: '' @ (if r \<noteq> [] then r else ''Colleague'') @ [newline]
       @ ''        Email Intent: '' @ i"]
      exI[of _ "''        ''
         @ (if pd \<noteq> [] then ''Relevant Paper/Manuscript Details: '' @ pd else []) @ [newline]
       @ ''        ''
         @ (if oi \<noteq> [] then ''Other Specific Information: '' @ oi else []) @ [newline]
       @ [newline]
       @ ''        Please structure the email appropriately with a subject line, salutation, body, and closing.'' @ [newline]
       @ ''        Ensure the tone is professional and academic.'' @ [newline]
       @ ''        ''"]) simp

lemma contains_paper_line:
  assumes "pd \<noteq> []"
  shows "sublist ([newline] @ ''        Relevant Paper/Manuscript Details: '' @ pd @ [newline])
           (ai_prompt p i r pd oi)"
  unfolding ai_prompt_def sublist_def using assms
  by (intro exI[of _ "[newline]
       @ ''        Draft a professional academic email with the following details:'' @ [newline]
       @ [newline]
       @ ''        Recipient Name: '' @ (if r \<noteq> [] then r else ''Colleague'') @ [newline]
       @ ''        Email Intent: '' @ i @ [newline]
       @ ''        Core Message/Key Points: '' @ p"]
      exI[of _ "''        ''
         @ (if oi \<noteq> [] then ''Other Specific Information: '' @ oi else []) @ [newline]
       @ [newline]
       @ ''        Please structure the email appropriately with a subject line, salutation, body, and closing.'' @ [newline]
       @ ''        Ensure the tone is professional and academic.'' @ [newline]
       @ ''        ''"]) simp

lemma contains_other_line:
  assumes "oi \<noteq> []"
  shows "sublist ([newline] @ ''        Other Specific Information: '' @ oi @ [newline])
           (ai_prompt p i r pd oi)"
  unfolding ai_prompt_def sublist_def using assms
  by (intro exI[of _ "[newline]
       @ ''        Draft a professional academic email with the following details:'' @ [newline]
       @ [newline]
       @ ''        Recipient Name: '' @ (if r \<noteq> [] then r else ''Colleague'') @ [newline]
       @ ''        Email Intent: '' @ i @ [newline]
       @ ''        Core Message/Key Points: '' @ p @ [newline]
       @ ''        ''
         @ (if pd \<noteq> [] then ''Relevant Paper/Manuscript Details: '' @ pd else [])"]
      exI[of _ "[newline]
       @ ''        Please structure the email appropriately with a subject line, salutation, body, and closing.'' @ [newline]
       @ ''        Ensure the tone is professional and academic.'' @ [newline]
       @ ''        ''"]) simp

lemma contains_message: "sublist p (ai_prompt p i r pd oi)"
  unfolding ai_prompt_def by (intro sublist_skip sublist_append_rightI)

lemma contains_intent: "sublist i (ai_prompt p i r pd oi)"
  unfolding ai_prompt_def by (intro sublist_skip sublist_append_rightI)

section \<open>Truthiness of the fields\<close>

lemma nonempty_recipient_kept:
  assumes "r \<noteq> []" and "r \<noteq> ''Colleague''"
  shows "ai_prompt p i r pd oi \<noteq> ai_prompt p i [] pd oi"
  using assms by (simp add: ai_prompt_def)

lemma nonempty_paper_kept:
  assumes "pd \<noteq> []"
  shows "ai_prompt p i r pd oi \<noteq> ai_prompt p i r [] oi"
  using assms by (simp add: ai_prompt_def)

lemma nonempty_other_kept:
  assumes "oi \<noteq> []"
  shows "ai_prompt p i r pd oi \<noteq> ai_prompt p i r pd []"
  using assms by (simp add: ai_prompt_def)

section \<open>The session state over the runs of the script\<close>

text \<open>
  Without a client no run stores a draft, so the draft that the unconfigured branch leaves
  untouched (line 156) is the empty one.
\<close>

lemma script_run_invariant:
  assumes "client = None \<longrightarrow> draft st = []"
    and "\<not> (draft st \<noteq> [] \<and> error_message st \<noteq> [])"
  shows "(client = None \<longrightarrow> draft (fst (script_run create client inp st)) = [])
       \<and> \<not> (draft (fst (script_run create client inp st)) \<noteq> []
            \<and> error_message (fst (script_run create client inp st)) \<noteq> [])"
  using assms
  by (cases client)
    (auto simp: script_run_def on_generate_def Let_def split: prod.splits if_splits)

lemma session_invariant:
  assumes "client = None \<longrightarrow> draft st = []"
    and "\<not> (draft st \<noteq> [] \<and> error_message st \<noteq> [])"
  shows "(client = None \<longrightarrow> draft (session create client st runs) = [])
       \<and> \<not> (draft (session create client st runs) \<noteq> []
            \<and> error_message (session create client st runs) \<noteq> [])"
  using assms
proof (induction runs arbitrary: st)
  case Nil
  then show ?case by simp
next
  case (Cons inp runs)
  from script_run_invariant[OF Cons.prems, of create inp]
  have "client = None \<longrightarrow> draft (fst (script_run create client inp st)) = []"
    and "\<not> (draft (fst (script_run create client inp st)) \<noteq> []
            \<and> error_message (fst (script_run create client inp st)) \<noteq> [])"
    by blast+
  from Cons.IH[OF this] show ?case by simp
qed

lemma sent_requests:
  "snd (snd (script_run create client inp st)) =
     (if generate_button inp \<and> user_prompt inp \<noteq> [] \<and> client \<noteq> None
      then [chat_request (ai_prompt (user_prompt inp) (selected_intent inp) (recipient_name inp)
              (paper_info inp) (other_info inp))]
      else [])"
  by (cases client)
    (auto simp: script_run_def on_generate_def generate_email_draft_def Let_def
      split: prod.splits sum.splits)

text \<open>The draft that a triggered run with a client stores, from what the call answers.\<close>

lemma stored_draft:
  assumes "generate_button inp" and "user_prompt inp \<noteq> []"
  shows "draft (fst (script_run create (Some c) inp st)) =
       (case create c (chat_request (ai_prompt (user_prompt inp) (selected_intent inp)
                (recipient_name inp) (paper_info inp) (other_info inp))) of
          Raises e \<Rightarrow> ''Error generating email draft with OpenAI API: '' @ e
        | Returns response \<Rightarrow>
            (case choices response of
               [] \<Rightarrow> ''Error generating email draft with OpenAI API: list index out of range''
             | first # others \<Rightarrow> content (message first)))"
  using assms
  by (simp add: script_run_def on_generate_def generate_email_draft_def try_body_def Let_def
      split: prod.splits sum.splits api_outcome.splits list.splits)

section \<open>The composed instruction\<close>

text \<open>
  C1, as stated: an optional detail field that is the empty string contributes no line to
  the composed instruction; the line is omitted, not included empty.

  The code keeps the line. With both optional fields empty the instruction has the lines
  below; the seventh and the eighth are the places of the two fields, and each is a line of
  its own that holds the eight spaces of the indentation and nothing else.
\<close>

theorem empty_optional_fields_leave_blank_lines:
  "lines_of (ai_prompt ''Inquire about the neuroplasticity paper'' ''Inquiry'' [] [] []) =
     [ [],
       ''        Draft a professional academic email with the following details:'',
       [],
       ''        Recipient Name: Colleague'',
       ''        Email Intent: Inquiry'',
       ''        Core Message/Key Points: Inquire about the neuroplasticity paper'',
       ''        '',
       ''        '',
       [],
       ''        Please structure the email appropriately with a subject line, salutation, body, and closing.'',
       ''        Ensure the tone is professional and academic.'',
       ''        '' ]"
  by (simp add: ai_prompt_def)

text \<open>
  C1, amended: for every request the lines of the instruction are, in this order, the three
  opening lines, the lines of the recipient, of the intent and of the core message, the
  place of \<^verbatim>\<open>paper_details\<close>, the place of \<^verbatim>\<open>other_info\<close>, and the four closing lines.
  The place of a field that is the empty string is one line that holds the indentation
  alone, without label and without value: the line stays. The place of a field that is not
  empty holds the indentation, its fixed label and its value verbatim, on as many lines as
  the value has; such a field stands in the instruction behind a line break, the indentation
  and its label, and before a line break. When neither value holds a line break, the place
  of \<^verbatim>\<open>paper_details\<close> is the sixth line from the end and the place of
  \<^verbatim>\<open>other_info\<close> the fifth, and the instruction has as many lines as with both fields
  empty.
\<close>

theorem optional_fields_fill_their_lines:
  "lines_of (ai_prompt p i r pd oi) =
     [ [], ''        Draft a professional academic email with the following details:'', [] ]
     @ lines_of (''        Recipient Name: '' @ (if r = [] then ''Colleague'' else r))
     @ lines_of (''        Email Intent: '' @ i)
     @ lines_of (''        Core Message/Key Points: '' @ p)
     @ (if pd = [] then [''        '']
        else lines_of (''        Relevant Paper/Manuscript Details: '' @ pd))
     @ (if oi = [] then [''        '']
        else lines_of (''        Other Specific Information: '' @ oi))
     @ [ [],
         ''        Please structure the email appropriately with a subject line, salutation, body, and closing.'',
         ''        Ensure the tone is professional and academic.'',
         ''        '' ]
   \<and> (pd \<noteq> [] \<longrightarrow>
      sublist ([newline] @ ''        Relevant Paper/Manuscript Details: '' @ pd @ [newline])
        (ai_prompt p i r pd oi))
   \<and> (oi \<noteq> [] \<longrightarrow>
      sublist ([newline] @ ''        Other Specific Information: '' @ oi @ [newline])
        (ai_prompt p i r pd oi))
   \<and> (newline \<notin> set pd \<and> newline \<notin> set oi \<longrightarrow>
      (let L = lines_of (ai_prompt p i r pd oi); n = length L in
         n = length (lines_of (ai_prompt p i r [] []))
       \<and> L ! (n - 6) =
           ''        '' @ (if pd = [] then [] else ''Relevant Paper/Manuscript Details: '' @ pd)
       \<and> L ! (n - 5) =
           ''        '' @ (if oi = [] then [] else ''Other Specific Information: '' @ oi)))"
proof -
  have "let L = lines_of (ai_prompt p i r pd oi); n = length L in
         n = length (lines_of (ai_prompt p i r [] []))
       \<and> L ! (n - 6) =
           ''        '' @ (if pd = [] then [] else ''Relevant Paper/Manuscript Details: '' @ pd)
       \<and> L ! (n - 5) =
           ''        '' @ (if oi = [] then [] else ''Other Specific Information: '' @ oi)"
    if "newline \<notin> set pd" "newline \<notin> set oi"
    using optional_slots[OF that, of p i r] by (simp only: Let_def)
  with lines_of_ai_prompt_places[of p i r pd oi]
    contains_paper_line[of pd p i r oi] contains_other_line[of oi p i r pd]
  show ?thesis by blast
qed

theorem optional_fields_fill_their_lines_witness:
  "lines_of (ai_prompt ''Ask for the data'' ''Inquiry'' [] []
      (''Sample size'' @ [newline] @ ''Ethics approval'')) =
     [ [],
       ''        Draft a professional academic email with the following details:'',
       [],
       ''        Recipient Name: Colleague'',
       ''        Email Intent: Inquiry'',
       ''        Core Message/Key Points: Ask for the data'',
       ''        '',
       ''        Other Specific Information: Sample size'',
       ''Ethics approval'',
       [],
       ''        Please structure the email appropriately with a subject line, salutation, body, and closing.'',
       ''        Ensure the tone is professional and academic.'',
       ''        '' ]
   \<and> ''The Impact of X on Y'' \<noteq> []
   \<and> sublist ([newline] @ ''        Relevant Paper/Manuscript Details: '' @ ''The Impact of X on Y''
                @ [newline])
       (ai_prompt ''Ask for the data'' ''Inquiry'' ''Dr. Eleanor Vance'' ''The Impact of X on Y'' [])
   \<and> newline \<notin> set ''The Impact of X on Y'' \<and> newline \<notin> set []
   \<and> length (lines_of (ai_prompt ''Ask for the data'' ''Inquiry'' ''Dr. Eleanor Vance''
        ''The Impact of X on Y'' [])) =
     length (lines_of (ai_prompt ''Ask for the data'' ''Inquiry'' ''Dr. Eleanor Vance'' [] []))
   \<and> lines_of (ai_prompt ''Ask for the data'' ''Inquiry'' ''Dr. Eleanor Vance''
        ''The Impact of X on Y'' []) !
       (length (lines_of (ai_prompt ''Ask for the data'' ''Inquiry'' ''Dr. Eleanor Vance''
          ''The Impact of X on Y'' [])) - 6) =
     ''        Relevant Paper/Manuscript Details: The Impact of X on Y''
   \<and> lines_of (ai_prompt ''Ask for the data'' ''Inquiry'' ''Dr. Eleanor Vance''
        ''The Impact of X on Y'' []) !
       (length (lines_of (ai_prompt ''Ask for the data'' ''Inquiry'' ''Dr. Eleanor Vance''
          ''The Impact of X on Y'' [])) - 5) =
     ''        ''"
proof -
  have h0: "''The Impact of X on Y'' \<noteq> []" by simp
  have h1: "newline \<notin> set ''The Impact of X on Y''" by simp
  have h2: "newline \<notin> set []" by simp
  from optional_fields_fill_their_lines [of "''Ask for the data''" "''Inquiry''" "[]" "[]"
      "''Sample size'' @ [newline] @ ''Ethics approval''", THEN conjunct1]
  have m:
    "lines_of (ai_prompt ''Ask for the data'' ''Inquiry'' [] []
        (''Sample size'' @ [newline] @ ''Ethics approval'')) =
     [ [],
       ''        Draft a professional academic email with the following details:'',
       [],
       ''        Recipient Name: Colleague'',
       ''        Email Intent: Inquiry'',
       ''        Core Message/Key Points: Ask for the data'',
       ''        '',
       ''        Other Specific Information: Sample size'',
       ''Ethics approval'',
       [],
       ''        Please structure the email appropriately with a subject line, salutation, body, and closing.'',
       ''        Ensure the tone is professional and academic.'',
       ''        '' ]"
    by simp
  note t = optional_fields_fill_their_lines [of "''Ask for the data''" "''Inquiry''"
      "''Dr. Eleanor Vance''" "''The Impact of X on Y''" "[]", THEN conjunct2]
  from t [THEN conjunct1, THEN mp, OF h0] have s:
    "sublist ([newline] @ ''        Relevant Paper/Manuscript Details: '' @ ''The Impact of X on Y''
                @ [newline])
       (ai_prompt ''Ask for the data'' ''Inquiry'' ''Dr. Eleanor Vance'' ''The Impact of X on Y'' [])" .
  note v = t [THEN conjunct2, THEN conjunct2, THEN mp, OF conjI [OF h1 h2], unfolded Let_def]
  from v have a:
    "length (lines_of (ai_prompt ''Ask for the data'' ''Inquiry'' ''Dr. Eleanor Vance''
        ''The Impact of X on Y'' [])) =
     length (lines_of (ai_prompt ''Ask for the data'' ''Inquiry'' ''Dr. Eleanor Vance'' [] []))"
    by (rule conjunct1)
  from v [THEN conjunct2, THEN conjunct1] have b:
    "lines_of (ai_prompt ''Ask for the data'' ''Inquiry'' ''Dr. Eleanor Vance''
        ''The Impact of X on Y'' []) !
       (length (lines_of (ai_prompt ''Ask for the data'' ''Inquiry'' ''Dr. Eleanor Vance''
          ''The Impact of X on Y'' [])) - 6) =
     ''        Relevant Paper/Manuscript Details: The Impact of X on Y''"
    by simp
  from v [THEN conjunct2, THEN conjunct2] have c:
    "lines_of (ai_prompt ''Ask for the data'' ''Inquiry'' ''Dr. Eleanor Vance''
        ''The Impact of X on Y'' []) !
       (length (lines_of (ai_prompt ''Ask for the data'' ''Inquiry'' ''Dr. Eleanor Vance''
          ''The Impact of X on Y'' [])) - 5) =
     ''        ''"
    by simp
  show ?thesis
    by (intro conjI m h0 s h1 h2 a b c)
qed

text \<open>
  C2: the composed instruction contains the core message and the intent label verbatim, each
  on a line of the template behind its label, and the recipient behind the recipient label:
  the recipient name when it is not empty, the literal \<^verbatim>\<open>Colleague\<close> when it is. When
  the name holds no line break, the fourth line of the instruction is the recipient line,
  and it is never the label alone.
\<close>

theorem instruction_carries_message_intent_recipient:
  "sublist p (ai_prompt p i r pd oi)
   \<and> sublist i (ai_prompt p i r pd oi)
   \<and> sublist ([newline] @ ''        Core Message/Key Points: '' @ p @ [newline])
        (ai_prompt p i r pd oi)
   \<and> sublist ([newline] @ ''        Email Intent: '' @ i @ [newline]) (ai_prompt p i r pd oi)
   \<and> sublist ([newline] @ ''        Recipient Name: '' @ (if r = [] then ''Colleague'' else r)
                @ [newline])
        (ai_prompt p i r pd oi)
   \<and> (newline \<notin> set r \<longrightarrow>
        lines_of (ai_prompt p i r pd oi) ! 3 =
          ''        Recipient Name: '' @ (if r = [] then ''Colleague'' else r)
        \<and> lines_of (ai_prompt p i r pd oi) ! 3 \<noteq> ''        Recipient Name: '')"
proof -
  have 5: "sublist ([newline] @ ''        Recipient Name: '' @ (if r = [] then ''Colleague'' else r)
                @ [newline])
        (ai_prompt p i r pd oi)"
    using contains_recipient_line[of r p i pd oi] by (cases "r = []") simp_all
  have 6: "lines_of (ai_prompt p i r pd oi) ! 3 =
          ''        Recipient Name: '' @ (if r = [] then ''Colleague'' else r)
        \<and> lines_of (ai_prompt p i r pd oi) ! 3 \<noteq> ''        Recipient Name: ''"
    if "newline \<notin> set r"
    using recipient_line[OF that, of p i pd oi] by simp
  from contains_message[of p i r pd oi] contains_intent[of i p r pd oi]
    contains_message_line[of p i r pd oi] contains_intent_line[of i p r pd oi] 5 6
  show ?thesis by blast
qed

theorem instruction_carries_message_intent_recipient_witness:
  "sublist ''Inquire about the neuroplasticity paper''
     (ai_prompt ''Inquire about the neuroplasticity paper'' ''Inquiry'' [] [] [])
   \<and> sublist ''Inquiry''
     (ai_prompt ''Inquire about the neuroplasticity paper'' ''Inquiry'' [] [] [])
   \<and> newline \<notin> set []
   \<and> lines_of (ai_prompt ''Inquire about the neuroplasticity paper'' ''Inquiry'' [] [] []) ! 3 =
       ''        Recipient Name: Colleague''"
  using instruction_carries_message_intent_recipient
    [of "''Inquire about the neuroplasticity paper''" "''Inquiry''" "[]" "[]" "[]"]
  by simp

text \<open>
  C8: the composed instruction is a function of the five field values alone. Two requests
  with the same field values give the same instruction, character by character; and two
  runs of the script that are triggered with the same field values send the same request,
  whatever the session state is and whatever the service answers.
\<close>

theorem composed_instruction_is_deterministic:
  "(user_prompt a = user_prompt b \<and> selected_intent a = selected_intent b
      \<and> recipient_name a = recipient_name b \<and> paper_info a = paper_info b
      \<and> other_info a = other_info b \<longrightarrow>
      ai_prompt (user_prompt a) (selected_intent a) (recipient_name a) (paper_info a) (other_info a) =
      ai_prompt (user_prompt b) (selected_intent b) (recipient_name b) (paper_info b) (other_info b))
   \<and> (user_prompt a = user_prompt b \<and> selected_intent a = selected_intent b
      \<and> recipient_name a = recipient_name b \<and> paper_info a = paper_info b
      \<and> other_info a = other_info b \<and> generate_button a \<and> generate_button b \<longrightarrow>
      snd (snd (script_run create1 client a st1)) = snd (snd (script_run create2 client b st2)))"
  by (simp add: sent_requests)

theorem composed_instruction_is_deterministic_witness:
  "ai_prompt (user_prompt \<lparr> user_prompt = ''Ask for the data'', selected_intent = ''Inquiry'',
        recipient_name = [], paper_info = [], other_info = [], generate_button = True \<rparr>)
     ''Inquiry'' [] [] [] =
   ai_prompt (user_prompt \<lparr> user_prompt = ''Ask for the data'', selected_intent = ''Inquiry'',
        recipient_name = [], paper_info = [], other_info = [], generate_button = False \<rparr>)
     ''Inquiry'' [] [] []
   \<and> snd (snd (script_run (\<lambda>(c :: unit) a. Raises ''Connection error.'') (Some ())
        \<lparr> user_prompt = ''Ask for the data'', selected_intent = ''Inquiry'',
          recipient_name = [], paper_info = [], other_info = [], generate_button = True \<rparr>
        initial_state)) =
     snd (snd (script_run
        (\<lambda>(c :: unit) a. Returns \<lparr> choices = [\<lparr> message = \<lparr> content = ''Dear Colleague,'' \<rparr> \<rparr>] \<rparr>)
        (Some ())
        \<lparr> user_prompt = ''Ask for the data'', selected_intent = ''Inquiry'',
          recipient_name = [], paper_info = [], other_info = [], generate_button = True \<rparr>
        \<lparr> draft = ''Error generating email draft with OpenAI API: Connection error.'',
          error_message = [] \<rparr>))"
proof -
  note t1 = composed_instruction_is_deterministic
    [of "\<lparr> user_prompt = ''Ask for the data'', selected_intent = ''Inquiry'',
          recipient_name = [], paper_info = [], other_info = [], generate_button = True \<rparr>"
        "\<lparr> user_prompt = ''Ask for the data'', selected_intent = ''Inquiry'',
          recipient_name = [], paper_info = [], other_info = [], generate_button = False \<rparr>",
     THEN conjunct1]
  note t2 = composed_instruction_is_deterministic
    [of "\<lparr> user_prompt = ''Ask for the data'', selected_intent = ''Inquiry'',
          recipient_name = [], paper_info = [], other_info = [], generate_button = True \<rparr>"
        "\<lparr> user_prompt = ''Ask for the data'', selected_intent = ''Inquiry'',
          recipient_name = [], paper_info = [], other_info = [], generate_button = True \<rparr>"
        "\<lambda>(c :: unit) a. Raises ''Connection error.''" "Some ()" initial_state
        "\<lambda>(c :: unit) a. Returns \<lparr> choices = [\<lparr> message = \<lparr> content = ''Dear Colleague,'' \<rparr> \<rparr>] \<rparr>"
        "\<lparr> draft = ''Error generating email draft with OpenAI API: Connection error.'',
          error_message = [] \<rparr>",
     THEN conjunct2]
  from t1 have a:
    "ai_prompt (user_prompt \<lparr> user_prompt = ''Ask for the data'', selected_intent = ''Inquiry'',
        recipient_name = [], paper_info = [], other_info = [], generate_button = True \<rparr>)
     ''Inquiry'' [] [] [] =
     ai_prompt (user_prompt \<lparr> user_prompt = ''Ask for the data'', selected_intent = ''Inquiry'',
        recipient_name = [], paper_info = [], other_info = [], generate_button = False \<rparr>)
     ''Inquiry'' [] [] []"
    by simp
  from t2 have b:
    "snd (snd (script_run (\<lambda>(c :: unit) a. Raises ''Connection error.'') (Some ())
        \<lparr> user_prompt = ''Ask for the data'', selected_intent = ''Inquiry'',
          recipient_name = [], paper_info = [], other_info = [], generate_button = True \<rparr>
        initial_state)) =
     snd (snd (script_run
        (\<lambda>(c :: unit) a. Returns \<lparr> choices = [\<lparr> message = \<lparr> content = ''Dear Colleague,'' \<rparr> \<rparr>] \<rparr>)
        (Some ())
        \<lparr> user_prompt = ''Ask for the data'', selected_intent = ''Inquiry'',
          recipient_name = [], paper_info = [], other_info = [], generate_button = True \<rparr>
        \<lparr> draft = ''Error generating email draft with OpenAI API: Connection error.'',
          error_message = [] \<rparr>))"
    by simp
  from a b show ?thesis by (rule conjI)
qed

text \<open>
  C9: a field is present exactly when its string is not empty; nothing is trimmed. So a
  field of white space only, whatever characters count as white space, is present like any
  other non-empty string. A non-empty recipient name stands behind the recipient label
  verbatim, and unless it is the word \<^verbatim>\<open>Colleague\<close> itself the instruction is not the
  one of the empty name; a non-empty optional detail field gets its labelled place, and the
  instruction is not the one without it; a non-empty core message passes the test of the
  handler, which clears the error message, sends one request and stores as the draft what
  the answer of the service to that request gives.
\<close>

theorem presence_is_truthiness:
  "(r \<noteq> [] \<longrightarrow>
      sublist ([newline] @ ''        Recipient Name: '' @ r @ [newline]) (ai_prompt p i r pd oi))
   \<and> (r \<noteq> [] \<and> r \<noteq> ''Colleague'' \<longrightarrow> ai_prompt p i r pd oi \<noteq> ai_prompt p i [] pd oi)
   \<and> (pd \<noteq> [] \<longrightarrow>
      sublist ([newline] @ ''        Relevant Paper/Manuscript Details: '' @ pd @ [newline])
        (ai_prompt p i r pd oi)
      \<and> ai_prompt p i r pd oi \<noteq> ai_prompt p i r [] oi)
   \<and> (oi \<noteq> [] \<longrightarrow>
      sublist ([newline] @ ''        Other Specific Information: '' @ oi @ [newline])
        (ai_prompt p i r pd oi)
      \<and> ai_prompt p i r pd oi \<noteq> ai_prompt p i r pd [])
   \<and> (user_prompt inp \<noteq> [] \<and> generate_button inp \<longrightarrow>
      snd (snd (script_run create (Some c) inp st)) =
        [chat_request (ai_prompt (user_prompt inp) (selected_intent inp) (recipient_name inp)
           (paper_info inp) (other_info inp))]
      \<and> error_message (fst (script_run create (Some c) inp st)) = []
      \<and> draft (fst (script_run create (Some c) inp st)) =
          (case create c (chat_request (ai_prompt (user_prompt inp) (selected_intent inp)
                   (recipient_name inp) (paper_info inp) (other_info inp))) of
             Raises e \<Rightarrow> ''Error generating email draft with OpenAI API: '' @ e
           | Returns response \<Rightarrow>
               (case choices response of
                  [] \<Rightarrow> ''Error generating email draft with OpenAI API: list index out of range''
                | first # others \<Rightarrow> content (message first))))"
proof -
  have 1: "sublist ([newline] @ ''        Recipient Name: '' @ r @ [newline]) (ai_prompt p i r pd oi)"
    if "r \<noteq> []"
    using contains_recipient_line[of r p i pd oi] that by simp
  have 2: "sublist ([newline] @ ''        Relevant Paper/Manuscript Details: '' @ pd @ [newline])
        (ai_prompt p i r pd oi)
      \<and> ai_prompt p i r pd oi \<noteq> ai_prompt p i r [] oi" if "pd \<noteq> []"
    using contains_paper_line[OF that] nonempty_paper_kept[OF that] by blast
  have 3: "sublist ([newline] @ ''        Other Specific Information: '' @ oi @ [newline])
        (ai_prompt p i r pd oi)
      \<and> ai_prompt p i r pd oi \<noteq> ai_prompt p i r pd []" if "oi \<noteq> []"
    using contains_other_line[OF that] nonempty_other_kept[OF that] by blast
  have 4: "snd (snd (script_run create (Some c) inp st)) =
        [chat_request (ai_prompt (user_prompt inp) (selected_intent inp) (recipient_name inp)
           (paper_info inp) (other_info inp))]
      \<and> error_message (fst (script_run create (Some c) inp st)) = []"
    if "user_prompt inp \<noteq> []" "generate_button inp"
    using that
    by (simp add: script_run_def on_generate_def generate_email_draft_def Let_def
        split: prod.splits sum.splits)
  from 1 2 3 4 nonempty_recipient_kept[of r p i pd oi] stored_draft[of inp create c st]
  show ?thesis by blast
qed

theorem presence_is_truthiness_witness:
  "''   '' \<noteq> [] \<and> ''   '' \<noteq> ''Colleague'' \<and> [CHR 0xC2, CHR 0xA0] \<noteq> []
   \<and> sublist ([newline] @ ''        Recipient Name: '' @ ''   '' @ [newline])
       (ai_prompt ''   '' ''Inquiry'' ''   '' [CHR 0xC2, CHR 0xA0] ''   '')
   \<and> ai_prompt ''   '' ''Inquiry'' ''   '' [CHR 0xC2, CHR 0xA0] ''   '' \<noteq>
     ai_prompt ''   '' ''Inquiry'' [] [CHR 0xC2, CHR 0xA0] ''   ''
   \<and> sublist ([newline] @ ''        Relevant Paper/Manuscript Details: '' @ [CHR 0xC2, CHR 0xA0]
                @ [newline])
       (ai_prompt ''   '' ''Inquiry'' ''   '' [CHR 0xC2, CHR 0xA0] ''   '')
   \<and> sublist ([newline] @ ''        Other Specific Information: '' @ ''   '' @ [newline])
       (ai_prompt ''   '' ''Inquiry'' ''   '' [CHR 0xC2, CHR 0xA0] ''   '')
   \<and> error_message (fst (script_run
        (\<lambda>(c :: unit) a. if a = chat_request (ai_prompt ''   '' ''Inquiry'' ''   ''
                                   [CHR 0xC2, CHR 0xA0] ''   '')
                          then Returns \<lparr> choices = [\<lparr> message = \<lparr> content = ''Subject: Hello'' \<rparr> \<rparr>] \<rparr>
                          else Raises ''another request'')
        (Some ())
        \<lparr> user_prompt = ''   '', selected_intent = ''Inquiry'', recipient_name = ''   '',
          paper_info = [CHR 0xC2, CHR 0xA0], other_info = ''   '', generate_button = True \<rparr>
        \<lparr> draft = [], error_message = ''old'' \<rparr>)) = []
   \<and> draft (fst (script_run
        (\<lambda>(c :: unit) a. if a = chat_request (ai_prompt ''   '' ''Inquiry'' ''   ''
                                   [CHR 0xC2, CHR 0xA0] ''   '')
                          then Returns \<lparr> choices = [\<lparr> message = \<lparr> content = ''Subject: Hello'' \<rparr> \<rparr>] \<rparr>
                          else Raises ''another request'')
        (Some ())
        \<lparr> user_prompt = ''   '', selected_intent = ''Inquiry'', recipient_name = ''   '',
          paper_info = [CHR 0xC2, CHR 0xA0], other_info = ''   '', generate_button = True \<rparr>
        \<lparr> draft = [], error_message = ''old'' \<rparr>)) = ''Subject: Hello''"
proof -
  have h1: "''   '' \<noteq> []" by simp
  have h2: "''   '' \<noteq> ''Colleague''" by simp
  have h3: "[CHR 0xC2, CHR 0xA0] \<noteq> []" by simp
  note t = presence_is_truthiness
    [of "''   ''" "''   ''" "''Inquiry''" "[CHR 0xC2, CHR 0xA0]" "''   ''"
        "\<lparr> user_prompt = ''   '', selected_intent = ''Inquiry'', recipient_name = ''   '',
          paper_info = [CHR 0xC2, CHR 0xA0], other_info = ''   '', generate_button = True \<rparr>"
        "\<lambda>(c :: unit) a. if a = chat_request (ai_prompt ''   '' ''Inquiry'' ''   ''
                                   [CHR 0xC2, CHR 0xA0] ''   '')
                          then Returns \<lparr> choices = [\<lparr> message = \<lparr> content = ''Subject: Hello'' \<rparr> \<rparr>] \<rparr>
                          else Raises ''another request''"
        "()" "\<lparr> draft = [], error_message = ''old'' \<rparr>"]
  from t [THEN conjunct1, THEN mp, OF h1] have a:
    "sublist ([newline] @ ''        Recipient Name: '' @ ''   '' @ [newline])
       (ai_prompt ''   '' ''Inquiry'' ''   '' [CHR 0xC2, CHR 0xA0] ''   '')" .
  from t [THEN conjunct2, THEN conjunct1, THEN mp, OF conjI [OF h1 h2]] have b:
    "ai_prompt ''   '' ''Inquiry'' ''   '' [CHR 0xC2, CHR 0xA0] ''   '' \<noteq>
     ai_prompt ''   '' ''Inquiry'' [] [CHR 0xC2, CHR 0xA0] ''   ''" .
  from t [THEN conjunct2, THEN conjunct2, THEN conjunct1, THEN mp, OF h3, THEN conjunct1] have c:
    "sublist ([newline] @ ''        Relevant Paper/Manuscript Details: '' @ [CHR 0xC2, CHR 0xA0]
                @ [newline])
       (ai_prompt ''   '' ''Inquiry'' ''   '' [CHR 0xC2, CHR 0xA0] ''   '')" .
  from t [THEN conjunct2, THEN conjunct2, THEN conjunct2, THEN conjunct1, THEN mp, OF h1,
      THEN conjunct1] have d:
    "sublist ([newline] @ ''        Other Specific Information: '' @ ''   '' @ [newline])
       (ai_prompt ''   '' ''Inquiry'' ''   '' [CHR 0xC2, CHR 0xA0] ''   '')" .
  note u = t [THEN conjunct2, THEN conjunct2, THEN conjunct2, THEN conjunct2]
  from u [THEN mp] have e:
    "error_message (fst (script_run
        (\<lambda>(c :: unit) a. if a = chat_request (ai_prompt ''   '' ''Inquiry'' ''   ''
                                   [CHR 0xC2, CHR 0xA0] ''   '')
                          then Returns \<lparr> choices = [\<lparr> message = \<lparr> content = ''Subject: Hello'' \<rparr> \<rparr>] \<rparr>
                          else Raises ''another request'')
        (Some ())
        \<lparr> user_prompt = ''   '', selected_intent = ''Inquiry'', recipient_name = ''   '',
          paper_info = [CHR 0xC2, CHR 0xA0], other_info = ''   '', generate_button = True \<rparr>
        \<lparr> draft = [], error_message = ''old'' \<rparr>)) = []"
    by simp
  from u [THEN mp] have f:
    "draft (fst (script_run
        (\<lambda>(c :: unit) a. if a = chat_request (ai_prompt ''   '' ''Inquiry'' ''   ''
                                   [CHR 0xC2, CHR 0xA0] ''   '')
                          then Returns \<lparr> choices = [\<lparr> message = \<lparr> content = ''Subject: Hello'' \<rparr> \<rparr>] \<rparr>
                          else Raises ''another request'')
        (Some ())
        \<lparr> user_prompt = ''   '', selected_intent = ''Inquiry'', recipient_name = ''   '',
          paper_info = [CHR 0xC2, CHR 0xA0], other_info = ''   '', generate_button = True \<rparr>
        \<lparr> draft = [], error_message = ''old'' \<rparr>)) = ''Subject: Hello''"
    by simp
  show ?thesis by (intro conjI h1 h2 h3 a b c d e f)
qed

section \<open>The generation call\<close>

text \<open>
  C3: when the variable \<^verbatim>\<open>OPENAI_API_KEY\<close> is absent at the start of the script (unset,
  or set to the empty string), no client is bound, and every call of
  \<^verbatim>\<open>generate_email_draft\<close> returns the configuration error string and sends no request.
\<close>

theorem missing_credential_refuses_generation:
  assumes "environ ''OPENAI_API_KEY'' = None \<or> environ ''OPENAI_API_KEY'' = Some []"
  shows "fst (configure environ OpenAI) = None
       \<and> generate_email_draft create (fst (configure environ OpenAI)) p i r pd oi =
           (''Error: OpenAI API not configured. Please set your API key as an environment variable.'', [])"
  using assms by (auto simp: configure_def generate_email_draft_def)

theorem missing_credential_refuses_generation_witness:
  "((Map.empty :: string \<rightharpoonup> string) ''OPENAI_API_KEY'' = None
      \<or> (Map.empty :: string \<rightharpoonup> string) ''OPENAI_API_KEY'' = Some [])
   \<and> fst (configure Map.empty (\<lambda>key. Inr key :: string + string)) = None
   \<and> generate_email_draft (\<lambda>(c :: string) a. Raises ''never called'')
        (fst (configure Map.empty (\<lambda>key. Inr key)))
        ''Ask for the data'' ''Inquiry'' [] [] [] =
      (''Error: OpenAI API not configured. Please set your API key as an environment variable.'', [])"
proof -
  have h: "(Map.empty :: string \<rightharpoonup> string) ''OPENAI_API_KEY'' = None
      \<or> (Map.empty :: string \<rightharpoonup> string) ''OPENAI_API_KEY'' = Some []"
    by simp
  show ?thesis
    using h missing_credential_refuses_generation [OF h, of "\<lambda>key. Inr key"
      "\<lambda>(c :: string) a. Raises ''never called''" "''Ask for the data''" "''Inquiry''" "[]" "[]" "[]"]
    by blast
qed

text \<open>
  C4: every fault of the external call ends in a string that the function returns. When the
  call raises, the result is the fixed English prefix followed by the text of the exception;
  when the call returns no completion choice, indexing the empty list raises inside the same
  \<^verbatim>\<open>try\<close> block and the result is the prefix followed by the text of that exception;
  without a client the result is the configuration error string. The function has no other
  outcome: the handler of the \<^verbatim>\<open>try\<close> block turns every exception of the body into a
  returned string.
\<close>

theorem generation_faults_become_error_strings:
  "(create c (chat_request (ai_prompt p i r pd oi)) = Raises e \<longrightarrow>
      fst (generate_email_draft create (Some c) p i r pd oi) =
        ''Error generating email draft with OpenAI API: '' @ e)
   \<and> (create c (chat_request (ai_prompt p i r pd oi)) = Returns response
        \<and> choices response = [] \<longrightarrow>
      fst (generate_email_draft create (Some c) p i r pd oi) =
        ''Error generating email draft with OpenAI API: list index out of range'')
   \<and> fst (generate_email_draft create None p i r pd oi) =
        ''Error: OpenAI API not configured. Please set your API key as an environment variable.''"
  by (simp add: generate_email_draft_def try_body_def)

theorem generation_faults_become_error_strings_witness:
  "fst (generate_email_draft (\<lambda>(c :: unit) a. Raises ''Connection error.'') (Some ())
          ''Ask for the data'' ''Inquiry'' [] [] []) =
     ''Error generating email draft with OpenAI API: Connection error.''
   \<and> fst (generate_email_draft (\<lambda>(c :: unit) a. Returns \<lparr> choices = [] \<rparr>) (Some ())
          ''Ask for the data'' ''Inquiry'' [] [] []) =
     ''Error generating email draft with OpenAI API: list index out of range''"
  using generation_faults_become_error_strings
      [of "\<lambda>(c :: unit) a. Raises ''Connection error.''" "()" "''Ask for the data''"
        "''Inquiry''" "[]" "[]" "[]" "''Connection error.''"]
    generation_faults_become_error_strings
      [of "\<lambda>(c :: unit) a. Returns \<lparr> choices = [] \<rparr>" "()" "''Ask for the data''"
        "''Inquiry''" "[]" "[]" "[]" _ "\<lparr> choices = [] \<rparr>"]
  by simp

text \<open>
  C7: with a client, the function sends one request: the model \<^verbatim>\<open>gpt-3.5-turbo\<close>, two
  messages (the fixed system string, then the composed instruction as the user message),
  \<^verbatim>\<open>max_tokens\<close> 500 and \<^verbatim>\<open>temperature\<close> 0.7. When the call returns at least one
  choice, the function returns the content of the first choice as it is.
\<close>

theorem request_shape_and_success_result:
  "snd (generate_email_draft create (Some c) p i r pd oi) =
     [ \<lparr> model = ''gpt-3.5-turbo'',
         messages =
           [ [(''role'', ''system''),
              (''content'', ''You are a helpful academic email drafting assistant.'')],
             [(''role'', ''user''), (''content'', ai_prompt p i r pd oi)] ],
         max_tokens = 500,
         temperature = 7 / 10 \<rparr> ]
   \<and> (create c (chat_request (ai_prompt p i r pd oi)) = Returns response
        \<and> choices response = first # others \<longrightarrow>
      fst (generate_email_draft create (Some c) p i r pd oi) = content (message first))"
  by (simp add: generate_email_draft_def try_body_def chat_request_def Let_def
      split: sum.splits api_outcome.splits list.splits)

theorem request_shape_and_success_result_witness:
  "fst (generate_email_draft
          (\<lambda>(c :: unit) a. Returns \<lparr> choices =
             [\<lparr> message = \<lparr> content = ''Subject: Data request'' \<rparr> \<rparr>,
              \<lparr> message = \<lparr> content = ''Subject: Another'' \<rparr> \<rparr>] \<rparr>)
          (Some ()) ''Ask for the data'' ''Inquiry'' [] [] []) =
     ''Subject: Data request''"
  using request_shape_and_success_result
      [of "\<lambda>(c :: unit) a. Returns \<lparr> choices =
             [\<lparr> message = \<lparr> content = ''Subject: Data request'' \<rparr> \<rparr>,
              \<lparr> message = \<lparr> content = ''Subject: Another'' \<rparr> \<rparr>] \<rparr>"
        "()" "''Ask for the data''" "''Inquiry''" "[]" "[]" "[]"
        "\<lparr> choices =
             [\<lparr> message = \<lparr> content = ''Subject: Data request'' \<rparr> \<rparr>,
              \<lparr> message = \<lparr> content = ''Subject: Another'' \<rparr> \<rparr>] \<rparr>"
        "\<lparr> message = \<lparr> content = ''Subject: Data request'' \<rparr> \<rparr>"
        "[\<lparr> message = \<lparr> content = ''Subject: Another'' \<rparr> \<rparr>]"]
  by simp

section \<open>The trigger\<close>

text \<open>
  C5: a run that is triggered with an empty core message sends no request, stores the
  validation message as the error message and stores the empty string as the draft, whatever
  the draft was.
\<close>

theorem empty_prompt_is_rejected:
  assumes "generate_button inp" and "user_prompt inp = []"
  shows "script_run create client inp st =
           (\<lparr> draft = [],
              error_message =
                warning_sign @ '' Please enter a core prompt for your email in the sidebar.'' \<rparr>,
            (if error_message st \<noteq> [] then [Error_box (error_message st)] else []),
            [])"
  using assms by (simp add: script_run_def on_generate_def)

theorem empty_prompt_is_rejected_witness:
  "script_run (\<lambda>(c :: unit) a. Raises ''never called'') (Some ())
     \<lparr> user_prompt = [], selected_intent = ''Inquiry'', recipient_name = ''Dr. Eleanor Vance'',
       paper_info = [], other_info = [], generate_button = True \<rparr>
     \<lparr> draft = ''Subject: Data request'', error_message = [] \<rparr> =
   (\<lparr> draft = [],
      error_message =
        warning_sign @ '' Please enter a core prompt for your email in the sidebar.'' \<rparr>,
    [], [])"
  using empty_prompt_is_rejected
      [of "\<lparr> user_prompt = [], selected_intent = ''Inquiry'', recipient_name = ''Dr. Eleanor Vance'',
            paper_info = [], other_info = [], generate_button = True \<rparr>"
        "\<lambda>(c :: unit) a. Raises ''never called''" "Some ()"
        "\<lparr> draft = ''Subject: Data request'', error_message = [] \<rparr>"]
  by simp

text \<open>
  C6: in a session, which starts with both strings empty and keeps its configuration, the
  draft and the error message are never both non-empty, after any runs of the script. A
  triggered run never keeps the error message it finds: the error message it leaves is the
  one the same run leaves from the initial state, and it is empty whenever the run sent a
  request.
\<close>

theorem draft_and_error_never_both:
  "\<not> (draft (session create client initial_state runs) \<noteq> []
       \<and> error_message (session create client initial_state runs) \<noteq> [])
   \<and> (generate_button inp \<longrightarrow>
        error_message (fst (script_run create client inp st)) =
          error_message (fst (script_run create client inp initial_state)))
   \<and> (generate_button inp \<and> snd (snd (script_run create client inp st)) \<noteq> [] \<longrightarrow>
        error_message (fst (script_run create client inp st)) = [])"
proof -
  have "\<not> (draft (session create client initial_state runs) \<noteq> []
       \<and> error_message (session create client initial_state runs) \<noteq> [])"
    using session_invariant[of client initial_state create runs]
    by (simp add: initial_state_def)
  moreover have "generate_button inp \<longrightarrow>
        error_message (fst (script_run create client inp st)) =
          error_message (fst (script_run create client inp initial_state))"
    by (cases client)
      (auto simp: script_run_def on_generate_def Let_def split: prod.splits if_splits)
  moreover have "generate_button inp \<and> snd (snd (script_run create client inp st)) \<noteq> [] \<longrightarrow>
        error_message (fst (script_run create client inp st)) = []"
    by (cases client)
      (auto simp: script_run_def on_generate_def Let_def split: prod.splits if_splits)
  ultimately show ?thesis by blast
qed

theorem draft_and_error_never_both_witness:
  "generate_button \<lparr> user_prompt = ''Ask for the data'', selected_intent = ''Inquiry'',
       recipient_name = [], paper_info = [], other_info = [], generate_button = True \<rparr>
   \<and> snd (snd (script_run (\<lambda>(c :: unit) a. Raises ''Connection error.'') (Some ())
        \<lparr> user_prompt = ''Ask for the data'', selected_intent = ''Inquiry'',
          recipient_name = [], paper_info = [], other_info = [], generate_button = True \<rparr>
        \<lparr> draft = [], error_message = ''old'' \<rparr>)) \<noteq> []
   \<and> error_message (fst (script_run (\<lambda>(c :: unit) a. Raises ''Connection error.'') (Some ())
        \<lparr> user_prompt = ''Ask for the data'', selected_intent = ''Inquiry'',
          recipient_name = [], paper_info = [], other_info = [], generate_button = True \<rparr>
        \<lparr> draft = [], error_message = ''old'' \<rparr>)) = []"
proof -
  have h1: "generate_button \<lparr> user_prompt = ''Ask for the data'', selected_intent = ''Inquiry'',
       recipient_name = [], paper_info = [], other_info = [], generate_button = True \<rparr>"
    by simp
  have h2: "snd (snd (script_run (\<lambda>(c :: unit) a. Raises ''Connection error.'') (Some ())
        \<lparr> user_prompt = ''Ask for the data'', selected_intent = ''Inquiry'',
          recipient_name = [], paper_info = [], other_info = [], generate_button = True \<rparr>
        \<lparr> draft = [], error_message = ''old'' \<rparr>)) \<noteq> []"
    by (simp add: sent_requests)
  note t = draft_and_error_never_both
    [of "\<lambda>(c :: unit) a. Raises ''Connection error.''" "Some ()" "[]"
        "\<lparr> user_prompt = ''Ask for the data'', selected_intent = ''Inquiry'',
          recipient_name = [], paper_info = [], other_info = [], generate_button = True \<rparr>"
        "\<lparr> draft = [], error_message = ''old'' \<rparr>",
     THEN conjunct2, THEN conjunct2, THEN mp, OF conjI [OF h1 h2]]
  show ?thesis by (intro conjI h1 h2 t)
qed

text \<open>
  C10: when the call raises after a trigger with a non-empty core message, the string that
  \<^verbatim>\<open>generate_email_draft\<close> returns for the failure is stored as the draft and drawn in the
  draft area, and the error message of the session is left empty.
\<close>

theorem generation_failure_goes_to_draft:
  assumes "generate_button inp" and "user_prompt inp \<noteq> []"
    and "create c (chat_request (ai_prompt (user_prompt inp) (selected_intent inp)
            (recipient_name inp) (paper_info inp) (other_info inp))) = Raises e"
  shows "script_run create (Some c) inp st =
           (\<lparr> draft = ''Error generating email draft with OpenAI API: '' @ e, error_message = [] \<rparr>,
            (if error_message st \<noteq> [] then [Error_box (error_message st)] else [])
              @ [Draft_area (''Error generating email draft with OpenAI API: '' @ e), Sending_note],
            [chat_request (ai_prompt (user_prompt inp) (selected_intent inp)
               (recipient_name inp) (paper_info inp) (other_info inp))])"
  using assms by (simp add: script_run_def on_generate_def generate_email_draft_def try_body_def)

theorem generation_failure_goes_to_draft_witness:
  "script_run (\<lambda>(c :: unit) a. Raises ''Connection error.'') (Some ())
     \<lparr> user_prompt = ''Ask for the data'', selected_intent = ''Inquiry'',
       recipient_name = [], paper_info = [], other_info = [], generate_button = True \<rparr>
     initial_state =
   (\<lparr> draft = ''Error generating email draft with OpenAI API: Connection error.'',
      error_message = [] \<rparr>,
    [Draft_area ''Error generating email draft with OpenAI API: Connection error.'', Sending_note],
    [chat_request (ai_prompt ''Ask for the data'' ''Inquiry'' [] [] [])])"
  using generation_failure_goes_to_draft
      [of "\<lparr> user_prompt = ''Ask for the data'', selected_intent = ''Inquiry'',
            recipient_name = [], paper_info = [], other_info = [], generate_button = True \<rparr>"
        "\<lambda>(c :: unit) a. Raises ''Connection error.''" "()" "''Connection error.''" initial_state]
  by (simp add: initial_state_def)

end
